theory Spec2Isabelle
  imports Main "HOL-Library.Word"
begin

section \<open>Python values used by the service\<close>

text \<open>
  A Python \<open>str\<close> is a sequence of Unicode code points and \<open>len\<close> counts code points,
  so a string is modelled as a list of code points. \<open>py\<close> turns a literal into that
  representation. A \<open>bytes\<close> value is a list of octets.
\<close>

type_synonym pystr = "nat list"

type_synonym bytes = "8 word list"

definition py :: "string \<Rightarrow> pystr" where
  "py s = map of_char s"

text \<open>
  \<open>str.isspace\<close> on one code point. \<open>str.strip()\<close>, \<open>str.split()\<close> and the pattern
  \<open>\s\<close> of \<open>re\<close> on a \<open>str\<close> all use this set of characters.
\<close>

definition is_space :: "nat \<Rightarrow> bool" where
  "is_space c \<longleftrightarrow>
     (9 \<le> c \<and> c \<le> 13) \<or> (28 \<le> c \<and> c \<le> 32) \<or> c = 133 \<or> c = 160 \<or> c = 5760 \<or>
     (8192 \<le> c \<and> c \<le> 8202) \<or> c = 8232 \<or> c = 8233 \<or> c = 8239 \<or> c = 8287 \<or> c = 12288"

text \<open>\<open>s.strip()\<close>\<close>

definition strip :: "pystr \<Rightarrow> pystr" where
  "strip s = rev (dropWhile is_space (rev (dropWhile is_space s)))"

text \<open>\<open>s.split()\<close>: the maximal runs of non-whitespace characters, in order.\<close>

fun split_acc :: "pystr \<Rightarrow> pystr \<Rightarrow> pystr list" where
  "split_acc word [] = (if word = [] then [] else [word])"
| "split_acc word (c # cs) =
     (if is_space c then (if word = [] then split_acc [] cs else word # split_acc [] cs)
      else split_acc (word @ [c]) cs)"

definition split :: "pystr \<Rightarrow> pystr list" where
  "split s = split_acc [] s"

text \<open>A word as \<open>split\<close> returns it: not empty and without whitespace.\<close>

definition solid :: "pystr \<Rightarrow> bool" where
  "solid w \<longleftrightarrow> w \<noteq> [] \<and> (\<forall>c\<in>set w. \<not> is_space c)"

text \<open>\<open>s[i:j]\<close> for indices \<open>0 \<le> i\<close> and \<open>0 \<le> j\<close>; an index past the end is clipped.\<close>

definition slice :: "pystr \<Rightarrow> nat \<Rightarrow> nat \<Rightarrow> pystr" where
  "slice s i j = take (j - i) (drop i s)"

text \<open>The character class \<open>[A-Za-z]\<close>.\<close>

definition is_alpha :: "nat \<Rightarrow> bool" where
  "is_alpha c \<longleftrightarrow> (65 \<le> c \<and> c \<le> 90) \<or> (97 \<le> c \<and> c \<le> 122)"

text \<open>
  \<open>s.lower()\<close> on the letters \<open>A\<close> to \<open>Z\<close>; other code points are left as they are.
  The chunker applies \<open>lower\<close> to a token made of \<open>[A-Za-z.]\<close> only, where this is
  all \<open>str.lower\<close> does. The combiner compares \<open>format.lower()\<close> with \<open>mp3\<close>,
  \<open>wav\<close> and \<open>ogg\<close>; no code point outside \<open>A\<close> to \<open>Z\<close> is lowered by Python
  to one of the letters of these three words, so the comparison has the same outcome.
\<close>

definition lower :: "pystr \<Rightarrow> pystr" where
  "lower s = map (\<lambda>c. if 65 \<le> c \<and> c \<le> 90 then c + 32 else c) s"

text \<open>\<open>str(n)\<close> for an integer.\<close>

function digits :: "nat \<Rightarrow> pystr" where
  "digits n = (if n < 10 then [48 + n] else digits (n div 10) @ [48 + n mod 10])"
  by pat_completeness auto
termination
  by (relation "measure (\<lambda>n. n)") auto

declare digits.simps [simp del]

definition str_int :: "int \<Rightarrow> pystr" where
  "str_int i = (if i < 0 then 45 # digits (nat (- i)) else digits (nat i))"

section \<open>Exceptions (app/middleware/error\_handler.py)\<close>

datatype ErrorCode =
    INVALID_INPUT
  | AUTH_ERROR
  | FORBIDDEN
  | UPSTREAM_ERROR
  | UPSTREAM_RATE_LIMIT
  | TIMEOUT
  | INTERNAL_ERROR
  | VOICE_NOT_FOUND
  | TEXT_TOO_LONG

text \<open>The fields every \<open>TTSException\<close> carries.\<close>

record TTSException =
  message :: pystr
  error_code :: ErrorCode
  retryable :: bool

text \<open>
  The exceptions that the modelled code raises: the three subclasses of \<open>TTSException\<close>
  and the built-in \<open>ValueError\<close> and \<open>TypeError\<close>, which carry their message.
\<close>

datatype py_exception =
    ElevenLabsException TTSException
  | ValidationException TTSException
  | VoiceNotFoundException TTSException
  | ValueError pystr
  | TypeError pystr

text \<open>\<open>ElevenLabsException(message, status_code, retryable)\<close>\<close>

definition new_ElevenLabsException :: "pystr \<Rightarrow> int option \<Rightarrow> bool \<Rightarrow> py_exception" where
  "new_ElevenLabsException msg status_code rt =
     ElevenLabsException \<lparr>message = msg,
       error_code =
         (if status_code = Some 401 then AUTH_ERROR
          else if status_code = Some 403 then FORBIDDEN
          else if status_code = Some 429 then UPSTREAM_RATE_LIMIT
          else if status_code \<in> {Some 500, Some 502, Some 503, Some 504} then UPSTREAM_ERROR
          else UPSTREAM_ERROR),
       retryable = rt\<rparr>"

text \<open>\<open>ValidationException(message)\<close>\<close>

definition new_ValidationException :: "pystr \<Rightarrow> py_exception" where
  "new_ValidationException msg =
     ValidationException \<lparr>message = msg, error_code = INVALID_INPUT, retryable = False\<rparr>"

text \<open>\<open>VoiceNotFoundException(message)\<close>\<close>

definition new_VoiceNotFoundException :: "pystr \<Rightarrow> py_exception" where
  "new_VoiceNotFoundException msg =
     VoiceNotFoundException \<lparr>message = msg, error_code = VOICE_NOT_FOUND, retryable = False\<rparr>"

text \<open>\<open>str(e)\<close>: every class above passes its message to \<open>Exception.__init__\<close>.\<close>

fun str_exc :: "py_exception \<Rightarrow> pystr" where
  "str_exc (ElevenLabsException x) = message x"
| "str_exc (ValidationException x) = message x"
| "str_exc (VoiceNotFoundException x) = message x"
| "str_exc (ValueError m) = m"
| "str_exc (TypeError m) = m"

text \<open>The error kind an exception reports, when it is a \<open>TTSException\<close>.\<close>

fun kind_of :: "py_exception \<Rightarrow> ErrorCode option" where
  "kind_of (ElevenLabsException x) = Some (error_code x)"
| "kind_of (ValidationException x) = Some (error_code x)"
| "kind_of (VoiceNotFoundException x) = Some (error_code x)"
| "kind_of (ValueError m) = None"
| "kind_of (TypeError m) = None"

text \<open>The \<open>retryable\<close> flag an exception carries, when it is a \<open>TTSException\<close>.\<close>

fun retryable_of :: "py_exception \<Rightarrow> bool option" where
  "retryable_of (ElevenLabsException x) = Some (retryable x)"
| "retryable_of (ValidationException x) = Some (retryable x)"
| "retryable_of (VoiceNotFoundException x) = Some (retryable x)"
| "retryable_of (ValueError m) = None"
| "retryable_of (TypeError m) = None"

section \<open>Text chunking (app/utils/chunking.py)\<close>

text \<open>
  \<open>force_split_text\<close>: the slices \<open>text[i:i + max_length]\<close> for \<open>i\<close> in
  \<open>range(0, len(text), max_length)\<close>. \<open>range\<close> raises \<open>ValueError\<close> for a zero step
  and is empty for a negative one.
\<close>

definition force_split_text :: "pystr \<Rightarrow> int \<Rightarrow> py_exception + pystr list" where
  "force_split_text text max_length =
     (if max_length = 0 then Inl (ValueError (py ''range() arg 3 must not be zero''))
      else if max_length < 0 then Inr []
      else let n = nat max_length in
           Inr (map (\<lambda>k. slice text (k * n) (k * n + n)) [0..<(length text + n - 1) div n]))"

text \<open>
  The loop of \<open>chunk_by_words\<close> over the remaining words, with the local variables
  \<open>chunks\<close> and \<open>current\<close>; the empty list of words is the code after the loop.
\<close>

fun chunk_by_words_loop :: "int \<Rightarrow> pystr list \<Rightarrow> pystr list \<Rightarrow> pystr \<Rightarrow> py_exception + pystr list" where
  "chunk_by_words_loop max_length [] chunks current =
     Inr (if current \<noteq> [] then chunks @ [strip current] else chunks)"
| "chunk_by_words_loop max_length (word # words) chunks current =
     (if int (length current) + int (length word) + 1 > max_length then
        (if current \<noteq> [] then
           chunk_by_words_loop max_length words (chunks @ [strip current]) word
         else if int (length word) > max_length then
           (case force_split_text word max_length of
              Inl e \<Rightarrow> Inl e
            | Inr parts \<Rightarrow> chunk_by_words_loop max_length words (chunks @ parts) current)
         else chunk_by_words_loop max_length words chunks current)
      else chunk_by_words_loop max_length words chunks (strip (current @ [32] @ word)))"

definition chunk_by_words :: "pystr \<Rightarrow> int \<Rightarrow> py_exception + pystr list" where
  "chunk_by_words text max_length = chunk_by_words_loop max_length (split text) [] []"

text \<open>
  \<open>re.finditer(r"([.!?])\s+", text)\<close>: the non-overlapping matches from left to right,
  each given as the position of the punctuation mark (\<open>match.start(1)\<close>) and the position
  after the run of whitespace (\<open>match.end()\<close>). \<open>pos\<close> is the index in the text of the
  first character of the part still to be scanned.
\<close>

function finditer :: "nat \<Rightarrow> pystr \<Rightarrow> (nat \<times> nat) list" where
  "finditer pos [] = []"
| "finditer pos (c # cs) =
     (if c \<in> {46, 33, 63} \<and> cs \<noteq> [] \<and> is_space (hd cs) then
        (pos, pos + 1 + length (takeWhile is_space cs))
          # finditer (pos + 1 + length (takeWhile is_space cs)) (dropWhile is_space cs)
      else finditer (pos + 1) cs)"
  by pat_completeness auto
termination
  by (relation "measure (\<lambda>(pos, s). length s)") (auto simp: length_dropWhile_le less_Suc_eq_le)

text \<open>
  Whether a whole string has the shape \<open>[A-Za-z]+(?:\.[A-Za-z]+)*\<close>; the flag says
  that the character before was a letter.
\<close>

fun word_shape :: "bool \<Rightarrow> pystr \<Rightarrow> bool" where
  "word_shape after_letter [] = after_letter"
| "word_shape after_letter (c # cs) =
     (if is_alpha c then word_shape True cs
      else if c = 46 \<and> after_letter then word_shape False cs
      else False)"

text \<open>
  \<open>re.search(r"([A-Za-z]+(?:\.[A-Za-z]+)*)$", before)\<close>, giving \<open>group(0)\<close>: the match
  with the leftmost start. \<open>$\<close> matches at the end of the string and also just before a
  newline that is its last character, so such a newline is set aside first. The pattern
  has no character but letters and dots, so a match from a given start is the whole rest
  of the string.
\<close>

definition search_word :: "pystr \<Rightarrow> pystr option" where
  "search_word before =
     (let b = (if before \<noteq> [] \<and> last before = 10 then butlast before else before)
      in find (word_shape False) (map (\<lambda>i. drop i b) [0..<length b]))"

definition abbreviations :: "pystr set" where
  "abbreviations = set (map py [''dr.'', ''mr.'', ''mrs.'', ''ms.'', ''prof.'', ''inc.'', ''ltd.'',
     ''etc.'', ''vs.'', ''e.g.'', ''i.e.''])"

text \<open>
  The loop of \<open>split_sentences\<close> over the matches, with the local variables \<open>start\<close>
  and \<open>sentences\<close>; the empty list of matches is the code after the loop.
\<close>

fun split_sentences_loop :: "pystr \<Rightarrow> (nat \<times> nat) list \<Rightarrow> nat \<Rightarrow> pystr list \<Rightarrow> pystr list" where
  "split_sentences_loop text [] start sentences =
     (let tail = strip (drop start text)
      in if tail \<noteq> [] then sentences @ [tail] else sentences)"
| "split_sentences_loop text ((punct_pos, match_end) # matches) start sentences =
     (let punct_char = text ! punct_pos;
          before = slice text start punct_pos;
          prev_word = (case search_word before of Some w \<Rightarrow> w | None \<Rightarrow> []);
          token = (if punct_char = 46 then lower (prev_word @ [46]) else lower prev_word)
      in if token \<in> abbreviations then split_sentences_loop text matches start sentences
         else split_sentences_loop text matches match_end
                (sentences @ [strip (slice text start (punct_pos + 1))]))"

definition split_sentences :: "pystr \<Rightarrow> pystr list" where
  "split_sentences text = split_sentences_loop text (finditer 0 text) 0 []"

text \<open>
  The loop of \<open>chunk_text\<close> over the remaining sentences, with the local variables
  \<open>chunks\<close> and \<open>current\<close>; the empty list of sentences is the code after the loop.
\<close>

fun chunk_text_loop :: "int \<Rightarrow> pystr list \<Rightarrow> pystr list \<Rightarrow> pystr \<Rightarrow> py_exception + pystr list" where
  "chunk_text_loop max_length [] chunks current =
     Inr (if current \<noteq> [] then chunks @ [strip current] else chunks)"
| "chunk_text_loop max_length (sentence # sentences) chunks current =
     (if strip sentence = [] then chunk_text_loop max_length sentences chunks current
      else if int (length current) + int (length sentence) + 1 > max_length then
        (if current \<noteq> [] then
           chunk_text_loop max_length sentences (chunks @ [strip current]) sentence
         else
           (case chunk_by_words sentence max_length of
              Inl e \<Rightarrow> Inl e
            | Inr parts \<Rightarrow> chunk_text_loop max_length sentences (chunks @ parts) []))
      else chunk_text_loop max_length sentences chunks (strip (current @ [32] @ sentence)))"

definition chunk_text :: "pystr \<Rightarrow> int \<Rightarrow> py_exception + pystr list" where
  "chunk_text text max_length =
     (if text = [] then Inr []
      else if int (length (strip text)) \<le> max_length then Inr [strip text]
      else chunk_text_loop max_length (split_sentences (strip text)) [] [])"

section \<open>Audio combining (app/utils/audio\_utils.py)\<close>

definition SUPPORTED_FORMATS :: "pystr set" where
  "SUPPORTED_FORMATS = set (map py [''mp3'', ''wav'', ''ogg''])"

text \<open>
  What the combiner takes from its environment. \<open>pydub\<close> is \<open>None\<close> when
  \<open>HAS_PYDUB\<close> is false; otherwise it is the decoding, appending and exporting done
  inside the \<open>try\<close> block, as a function of the chunks and the lowered format that
  gives \<open>None\<close> when the block raises. \<open>formats_repr\<close> is the text Python prints
  for the set \<open>SUPPORTED_FORMATS\<close>, whose element order the language does not fix.
  The elements of the list of chunks are \<open>bytes\<close>, or Python's \<open>None\<close> (the value
  \<open>_generate_chunk\<close> returns when its loop runs zero times).
\<close>

record audio_env =
  pydub :: "(bytes option list \<Rightarrow> pystr \<Rightarrow> bytes option) option"
  formats_repr :: pystr

text \<open>
  \<open>b"".join(audio_chunks)\<close>, which raises \<open>TypeError\<close> at the first item that is
  not bytes-like.
\<close>

fun join_from :: "nat \<Rightarrow> bytes option list \<Rightarrow> py_exception + bytes" where
  "join_from i [] = Inr []"
| "join_from i (None # rest) =
     Inl (TypeError (py ''sequence item '' @ str_int (int i)
            @ py '': expected a bytes-like object, NoneType found''))"
| "join_from i (Some b # rest) =
     (case join_from (i + 1) rest of Inl e \<Rightarrow> Inl e | Inr bs \<Rightarrow> Inr (b @ bs))"

definition join :: "bytes option list \<Rightarrow> py_exception + bytes option" where
  "join audio_chunks = map_sum id Some (join_from 0 audio_chunks)"

definition combine_audio_chunks ::
    "audio_env \<Rightarrow> bytes option list \<Rightarrow> pystr \<Rightarrow> py_exception + bytes option" where
  "combine_audio_chunks env audio_chunks format =
     (if audio_chunks = [] then Inl (ValueError (py ''No audio chunks provided''))
      else if length audio_chunks = 1 then Inr (audio_chunks ! 0)
      else if lower format \<notin> SUPPORTED_FORMATS then
        Inl (ValueError (py ''Unsupported audio format: '' @ format
               @ py ''. Must be one of '' @ formats_repr env))
      else
        (case pydub env of
           None \<Rightarrow> join audio_chunks
         | Some codec \<Rightarrow>
             (case codec audio_chunks (lower format) of
                Some combined_bytes \<Rightarrow> Inr (Some combined_bytes)
              | None \<Rightarrow> join audio_chunks)))"

section \<open>Voice registry (app/services/voice\_manager.py)\<close>

text \<open>
  A value of a voice setting: a float, kept as the decimal literal \<open>m \<times> 10\<^sup>e\<close> that names
  it (the service only passes these values on), or a boolean. A \<open>dict\<close> of settings is
  an association list in insertion order.
\<close>

datatype setting_value = Float int int | Bool bool

type_synonym settings_dict = "(pystr \<times> setting_value) list"

text \<open>\<open>d[k] = v\<close>\<close>

fun dict_set :: "pystr \<Rightarrow> setting_value \<Rightarrow> settings_dict \<Rightarrow> settings_dict" where
  "dict_set k v [] = [(k, v)]"
| "dict_set k v (p # ps) = (if fst p = k then (k, v) # ps else p # dict_set k v ps)"

text \<open>\<open>d.update(other)\<close>, also \<open>{**d, **other}\<close>\<close>

definition dict_update :: "settings_dict \<Rightarrow> settings_dict \<Rightarrow> settings_dict" where
  "dict_update d other = fold (\<lambda>(k, v). dict_set k v) other d"

text \<open>
  One entry of \<open>VoiceManager._voices\<close>; \<open>settings\<close> is \<open>None\<close> when the entry has no
  such key.
\<close>

record voice_config =
  voice_id :: pystr
  model :: pystr
  settings :: "settings_dict option"

type_synonym voices = "pystr \<rightharpoonup> voice_config"

definition is_voice_available :: "voices \<Rightarrow> pystr \<Rightarrow> bool" where
  "is_voice_available vs voice_name \<longleftrightarrow> vs voice_name \<noteq> None"

definition get_voice_config :: "voices \<Rightarrow> pystr \<Rightarrow> py_exception + voice_config" where
  "get_voice_config vs voice_name =
     (case vs voice_name of
        None \<Rightarrow> Inl (new_VoiceNotFoundException voice_name)
      | Some c \<Rightarrow> Inr c)"

definition default_settings :: settings_dict where
  "default_settings =
     [(py ''stability'', Float 7 (- 1)), (py ''similarity_boost'', Float 6 (- 1)),
      (py ''style'', Float 2 (- 1)), (py ''use_speaker_boost'', Bool True)]"

definition get_voice_settings :: "voices \<Rightarrow> pystr \<Rightarrow> py_exception + settings_dict" where
  "get_voice_settings vs voice_name =
     (case get_voice_config vs voice_name of
        Inl e \<Rightarrow> Inl e
      | Inr c \<Rightarrow> Inr (dict_update default_settings (case settings c of None \<Rightarrow> [] | Some d \<Rightarrow> d)))"

definition get_voice_model :: "voices \<Rightarrow> pystr \<Rightarrow> py_exception + pystr" where
  "get_voice_model vs voice_name = map_sum id model (get_voice_config vs voice_name)"

definition get_voice_id :: "voices \<Rightarrow> pystr \<Rightarrow> py_exception + pystr" where
  "get_voice_id vs voice_name = map_sum id voice_id (get_voice_config vs voice_name)"

section \<open>The service (app/services/elevenlabs\_service.py)\<close>

subsection \<open>The upstream provider\<close>

text \<open>
  The body of a response as \<open>response.json()\<close> sees it: not JSON (the call raises), a
  JSON object with its \<open>detail\<close> and \<open>error\<close> entries (\<open>None\<close> when absent or null),
  or any other JSON value.
\<close>

datatype json_payload = NotJson | JsonDict "pystr option" "pystr option" | JsonOther

record response =
  status_code :: int
  content :: bytes
  payload :: json_payload
  response_text :: pystr
  retry_after :: "pystr option"

text \<open>
  What \<open>client.post\<close> does: it returns a response, or raises \<open>httpx.TimeoutException\<close>
  or another \<open>httpx.RequestError\<close>, each with its message.
\<close>

datatype http_outcome = Response response | TimeoutException pystr | RequestError pystr

text \<open>
  The request of one synthesis call: the voice in the URL, the JSON body
  \<open>{text, model_id, voice_settings}\<close> and the format of the \<open>Accept\<close> header.
\<close>

record post_request =
  url_voice_id :: pystr
  body_text :: pystr
  body_model_id :: pystr
  body_voice_settings :: settings_dict
  accept_format :: pystr

text \<open>
  What the service does to the outside, in order: a POST to the provider, the sleep of
  \<open>_sleep_backoff(attempt, retry_after)\<close>, and the pause of \<open>chunk_delay\<close> between
  two chunks. The length of a sleep is a float, with a random jitter, and is not computed.
  Logging and metrics are not recorded; they are taken not to raise.
\<close>

datatype event = Post post_request | Backoff int "pystr option" | ChunkDelay

fun is_post :: "event \<Rightarrow> bool" where
  "is_post (Post r) = True"
| "is_post (Backoff a h) = False"
| "is_post ChunkDelay = False"

definition posts :: "event list \<Rightarrow> nat" where
  "posts trace = length (filter is_post trace)"

text \<open>
  The service object with what it reads from \<open>settings\<close>, the voice registry, the
  combiner's environment and the provider: \<open>upstream k r\<close> is the outcome of the POST of
  request \<open>r\<close> made after \<open>k\<close> earlier POSTs.
\<close>

record service =
  default_format :: pystr
  max_retries :: int
  default_chunk_size :: int
  max_text_length :: int
  registry :: voices
  audio :: audio_env
  upstream :: "nat \<Rightarrow> post_request \<Rightarrow> http_outcome"

text \<open>Python's truth value of a string that may be \<open>None\<close>.\<close>

definition truthy :: "pystr option \<Rightarrow> bool" where
  "truthy a \<longleftrightarrow> a \<noteq> None \<and> a \<noteq> Some []"

definition extract_error :: "response \<Rightarrow> pystr" where
  "extract_error r =
     (case payload r of
        JsonDict detail err \<Rightarrow>
          (if truthy detail then the detail else if truthy err then the err else response_text r)
      | JsonOther \<Rightarrow> response_text r
      | NotJson \<Rightarrow> response_text r)"

subsection \<open>One chunk, with retries\<close>

text \<open>
  The loop \<open>for attempt in range(1, self.max_retries + 1)\<close> of \<open>_generate_chunk\<close>, from
  the given attempt on. When the range is used up the function falls off its end and
  returns \<open>None\<close>.
\<close>

function generate_chunk_loop ::
    "service \<Rightarrow> post_request \<Rightarrow> int \<Rightarrow> int \<Rightarrow> event list
       \<Rightarrow> (py_exception + bytes option) \<times> event list" where
  "generate_chunk_loop sv req chunk_index attempt trace =
     (if attempt > max_retries sv then (Inr None, trace)
      else
        (case upstream sv (posts trace) req of
           Response r \<Rightarrow>
             (if status_code r = 200 then (Inr (Some (content r)), trace @ [Post req])
              else if status_code r \<in> {429, 500, 502, 503, 504} \<and> attempt < max_retries sv then
                generate_chunk_loop sv req chunk_index (attempt + 1)
                  (trace @ [Post req, Backoff attempt (retry_after r)])
              else
                (Inl (new_ElevenLabsException (extract_error r) (Some (status_code r)) False),
                 trace @ [Post req]))
         | TimeoutException m \<Rightarrow>
             (if attempt < max_retries sv then
                generate_chunk_loop sv req chunk_index (attempt + 1)
                  (trace @ [Post req, Backoff attempt None])
              else
                (Inl (new_ElevenLabsException
                        (py ''Request timeout in chunk '' @ str_int chunk_index) None True),
                 trace @ [Post req]))
         | RequestError m \<Rightarrow>
             (if attempt < max_retries sv then
                generate_chunk_loop sv req chunk_index (attempt + 1)
                  (trace @ [Post req, Backoff attempt None])
              else
                (Inl (new_ElevenLabsException
                        (py ''Network error in chunk '' @ str_int chunk_index @ py '': '' @ m)
                        None True),
                 trace @ [Post req]))))"
  by pat_completeness auto
termination
  by (relation "measure (\<lambda>(sv, req, chunk_index, attempt, trace). nat (max_retries sv + 1 - attempt))")
     auto

declare generate_chunk_loop.simps [simp del]

definition generate_chunk ::
    "service \<Rightarrow> pystr \<Rightarrow> pystr \<Rightarrow> pystr \<Rightarrow> settings_dict \<Rightarrow> pystr \<Rightarrow> int \<Rightarrow> event list
       \<Rightarrow> (py_exception + bytes option) \<times> event list" where
  "generate_chunk sv chunk vid model_id voice_settings fmt chunk_index trace =
     generate_chunk_loop sv
       \<lparr>url_voice_id = vid, body_text = chunk, body_model_id = model_id,
        body_voice_settings = voice_settings, accept_format = fmt\<rparr>
       chunk_index 1 trace"

subsection \<open>The orchestrator\<close>

text \<open>
  The loop \<open>for i, chunk in enumerate(chunks, start=1)\<close> of \<open>text_to_speech\<close>, with
  \<open>n = len(chunks)\<close> and the local variable \<open>audio_chunks\<close>.
\<close>

fun process_chunks ::
    "service \<Rightarrow> pystr \<Rightarrow> pystr \<Rightarrow> settings_dict \<Rightarrow> pystr \<Rightarrow> int \<Rightarrow> int \<Rightarrow> pystr list
       \<Rightarrow> bytes option list \<Rightarrow> event list \<Rightarrow> (py_exception + bytes option list) \<times> event list" where
  "process_chunks sv vid model_id voice_settings fmt n i [] audio_chunks trace =
     (Inr audio_chunks, trace)"
| "process_chunks sv vid model_id voice_settings fmt n i (chunk # rest) audio_chunks trace =
     (case generate_chunk sv chunk vid model_id voice_settings fmt i trace of
        (Inl e, trace') \<Rightarrow> (Inl e, trace')
      | (Inr chunk_audio, trace') \<Rightarrow>
          process_chunks sv vid model_id voice_settings fmt n (i + 1) rest
            (audio_chunks @ [chunk_audio])
            (if i < n then trace' @ [ChunkDelay] else trace'))"

text \<open>
  The body of the \<open>try\<close> statement of \<open>text_to_speech\<close>, after \<open>chunk_size\<close> and
  \<open>output_format\<close> have taken their defaults. \<open>news_id\<close> and \<open>request_id\<close> only reach
  the log and are left out. Code point 39 is the apostrophe.
\<close>

definition text_to_speech_try ::
    "service \<Rightarrow> pystr \<Rightarrow> pystr \<Rightarrow> int \<Rightarrow> settings_dict option \<Rightarrow> pystr \<Rightarrow> event list
       \<Rightarrow> (py_exception + bytes) \<times> event list" where
  "text_to_speech_try sv txt voice_name chunk_size override_voice_settings output_format trace =
     (if \<not> is_voice_available (registry sv) voice_name then
        (Inl (new_ValidationException (py ''Voice '' @ [39] @ voice_name @ [39] @ py '' is not available'')),
         trace)
      else
        (case get_voice_id (registry sv) voice_name of Inl e \<Rightarrow> (Inl e, trace) | Inr vid \<Rightarrow>
        (case get_voice_model (registry sv) voice_name of Inl e \<Rightarrow> (Inl e, trace) | Inr model_id \<Rightarrow>
        (case get_voice_settings (registry sv) voice_name of Inl e \<Rightarrow> (Inl e, trace) | Inr vs \<Rightarrow>
           (let voice_settings =
                  dict_update vs (case override_voice_settings of None \<Rightarrow> [] | Some d \<Rightarrow> d)
            in
              if int (length txt) > max_text_length sv then
                (Inl (new_ValidationException
                        (py ''Text too long: '' @ str_int (int (length txt))
                           @ py '' characters (max: '' @ str_int (max_text_length sv) @ py '')'')),
                 trace)
              else
                (case chunk_text txt chunk_size of Inl e \<Rightarrow> (Inl e, trace) | Inr chunks \<Rightarrow>
                (case process_chunks sv vid model_id voice_settings output_format
                        (int (length chunks)) 1 chunks [] trace of
                   (Inl e, trace') \<Rightarrow> (Inl e, trace')
                 | (Inr audio_chunks, trace') \<Rightarrow>
                     (if audio_chunks \<noteq> [] then
                        (case combine_audio_chunks (audio sv) audio_chunks output_format of
                           Inl e \<Rightarrow> (Inl e, trace')
                         | Inr None \<Rightarrow>
                             (Inl (TypeError (py ''object of type 'NoneType' has no len()'')),
                              trace')
                         | Inr (Some combined_audio) \<Rightarrow> (Inr combined_audio, trace'))
                      else
                        (Inl (new_ElevenLabsException (py ''No audio chunks were generated'')
                                None False),
                         trace')))))))))"

text \<open>
  The two \<open>except\<close> clauses of \<open>text_to_speech\<close>: a \<open>ValidationException\<close> or an
  \<open>ElevenLabsException\<close> is raised again, any other exception is replaced.
\<close>

fun except_clauses :: "py_exception \<Rightarrow> py_exception" where
  "except_clauses (ValidationException x) = ValidationException x"
| "except_clauses (ElevenLabsException x) = ElevenLabsException x"
| "except_clauses e = new_ElevenLabsException (py ''Unexpected error: '' @ str_exc e) None False"

text \<open>\<open>chunk_size or settings.default_chunk_size\<close>\<close>

definition chunk_size_or_default :: "service \<Rightarrow> int option \<Rightarrow> int" where
  "chunk_size_or_default sv chunk_size =
     (case chunk_size of
        None \<Rightarrow> default_chunk_size sv
      | Some n \<Rightarrow> if n \<noteq> 0 then n else default_chunk_size sv)"

text \<open>\<open>output_format or self.default_format\<close>\<close>

definition output_format_or_default :: "service \<Rightarrow> pystr option \<Rightarrow> pystr" where
  "output_format_or_default sv output_format =
     (if truthy output_format then the output_format else default_format sv)"

definition text_to_speech ::
    "service \<Rightarrow> pystr \<Rightarrow> pystr \<Rightarrow> int option \<Rightarrow> settings_dict option \<Rightarrow> pystr option
       \<Rightarrow> event list \<Rightarrow> (py_exception + bytes) \<times> event list" where
  "text_to_speech sv txt voice_name chunk_size override_voice_settings output_format trace =
     (case text_to_speech_try sv txt voice_name (chunk_size_or_default sv chunk_size)
             override_voice_settings (output_format_or_default sv output_format) trace of
        (Inl e, trace') \<Rightarrow> (Inl (except_clauses e), trace')
      | (Inr combined_audio, trace') \<Rightarrow> (Inr combined_audio, trace'))"

section \<open>A sample deployment\<close>

text \<open>
  The voice \<open>adam\<close> of the default voice configuration in app/core/config.py, the
  defaults of \<open>Settings\<close> and of \<open>ElevenLabsTTSService.__init__\<close>, no \<open>pydub\<close>, and a
  provider given as a parameter.
\<close>

definition sample_registry :: voices where
  "sample_registry =
     [py ''adam'' \<mapsto> \<lparr>voice_id = py ''pNInz6obpgDQGcFmaJgB'', model = py ''eleven_flash_v2_5'',
                        settings = None\<rparr>]"

definition sample_service :: "(nat \<Rightarrow> post_request \<Rightarrow> http_outcome) \<Rightarrow> service" where
  "sample_service provider =
     \<lparr>default_format = py ''mp3'', max_retries = 3, default_chunk_size = 2500,
      max_text_length = 10000, registry = sample_registry,
      audio = \<lparr>pydub = None, formats_repr = py ''{'mp3', 'wav', 'ogg'}''\<rparr>,
      upstream = provider\<rparr>"

text \<open>A provider that answers every request with status 200 and the given audio.\<close>

definition answers_ok :: "bytes \<Rightarrow> nat \<Rightarrow> post_request \<Rightarrow> http_outcome" where
  "answers_ok a k r =
     Response \<lparr>status_code = 200, content = a, payload = NotJson, response_text = [],
               retry_after = None\<rparr>"

text \<open>A provider that answers every request with status 500 and a JSON error body.\<close>

definition response_500 :: response where
  "response_500 =
     \<lparr>status_code = 500, content = [],
      payload = JsonDict (Some (py ''Internal Server Error'')) None,
      response_text = py ''{\"detail\": \"Internal Server Error\"}'', retry_after = None\<rparr>"

definition answers_500 :: "nat \<Rightarrow> post_request \<Rightarrow> http_outcome" where
  "answers_500 k r = Response response_500"

text \<open>The request the sample deployment sends for a chunk read by \<open>adam\<close>.\<close>

definition sample_request :: "pystr \<Rightarrow> pystr \<Rightarrow> post_request" where
  "sample_request chunk fmt =
     \<lparr>url_voice_id = py ''pNInz6obpgDQGcFmaJgB'', body_text = chunk,
      body_model_id = py ''eleven_flash_v2_5'', body_voice_settings = default_settings,
      accept_format = fmt\<rparr>"

section \<open>Evaluation rules\<close>

text \<open>The definitions that a run on concrete inputs unfolds.\<close>

lemmas chunking_defs =
  chunk_text_def chunk_by_words_def split_def py_def is_space_def strip_def
  force_split_text_def slice_def split_sentences_def search_word_def is_alpha_def lower_def
  abbreviations_def Let_def upt_rec

lemmas service_defs =
  text_to_speech_def text_to_speech_try_def is_voice_available_def get_voice_id_def
  get_voice_model_def get_voice_settings_def get_voice_config_def dict_update_def
  default_settings_def chunk_size_or_default_def output_format_or_default_def truthy_def
  generate_chunk_def generate_chunk_loop.simps posts_def extract_error_def
  combine_audio_chunks_def SUPPORTED_FORMATS_def join_def
  new_ElevenLabsException_def new_ValidationException_def new_VoiceNotFoundException_def
  sample_service_def sample_registry_def sample_request_def answers_ok_def answers_500_def
  response_500_def

lemma strip_Nil: "strip [] = []" by (simp add: strip_def)

section \<open>The chunker\<close>

text \<open>
  C5, as the code has it. For every text that has a character other than whitespace and
  whose length after \<open>strip\<close> is at most \<open>max_length\<close>, \<open>chunk_text\<close> returns
  exactly the one-element list of the stripped text; for the empty string it returns the
  empty list.
\<close>

theorem chunk_text_short:
  "chunk_text [] max_length = Inr [] \<and>
   (strip text \<noteq> [] \<and> int (length (strip text)) \<le> max_length \<longrightarrow>
      chunk_text text max_length = Inr [strip text])"
  by (auto simp: chunk_text_def strip_Nil)

text \<open>A short text with blanks around it.\<close>

theorem chunk_text_short_witness:
  "strip (py ''  Short text '') \<noteq> [] \<and> int (length (strip (py ''  Short text ''))) \<le> 100 \<and>
   chunk_text (py ''  Short text '') 100 = Inr [py ''Short text''] \<and> chunk_text [] 100 = Inr []"
  using chunk_text_short [of 100 "py ''  Short text ''"]
  by (simp add: py_def strip_def is_space_def)

text \<open>
  C5 as stated includes the empty string, for which it asks for \<open>[""]\<close>; the guard
  \<open>if not text\<close> returns the empty list there.
\<close>

theorem chunk_text_empty_string:
  "int (length (strip [])) \<le> 5 \<and> chunk_text [] 5 = Inr [] \<and> chunk_text [] 5 \<noteq> Inr [strip []]"
  by (simp add: chunk_text_def strip_def)

text \<open>
  C6, as the code has it. With \<open>max_length = 1000\<close> the text
  \<open>Dr. Smith went home. He left.\<close> has 29 characters and comes back as one chunk, not
  split into sentences. \<open>split_sentences\<close> on it gives the two sentences
  \<open>Dr. Smith went home.\<close> and \<open>He left.\<close>, with no break after \<open>Dr.\<close>, and
  these are the two chunks of \<open>chunk_text\<close> with \<open>max_length = 28\<close>.
\<close>

theorem chunk_text_abbreviation:
  "chunk_text (py ''Dr. Smith went home. He left.'') 1000 = Inr [py ''Dr. Smith went home. He left.''] \<and>
   split_sentences (py ''Dr. Smith went home. He left.'') = [py ''Dr. Smith went home.'', py ''He left.''] \<and>
   chunk_text (py ''Dr. Smith went home. He left.'') 28 = Inr [py ''Dr. Smith went home.'', py ''He left.'']"
  by (simp add: chunking_defs)

text \<open>C6 as stated asks for the two sentences as two chunks with \<open>max_length = 1000\<close>.\<close>

theorem chunk_text_abbreviation_one_chunk:
  "chunk_text (py ''Dr. Smith went home. He left.'') 1000 \<noteq> Inr [py ''Dr. Smith went home.'', py ''He left.'']"
  by (simp add: chunking_defs)

text \<open>
  C1 at the input \<open>chunk_text("Hi. aaaa bbbb cc", 10)\<close>. The second sentence arrives
  while the buffer holds \<open>Hi.\<close>; the buffer is flushed and the sentence becomes the new
  buffer without being split by words, so it is returned as one chunk of 12 characters and
  three words, above the maximum of 10.
\<close>

theorem chunk_text_oversized_sentence:
  "chunk_text (py ''Hi. aaaa bbbb cc'') 10 = Inr [py ''Hi.'', py ''aaaa bbbb cc''] \<and>
   length (py ''aaaa bbbb cc'') = 12 \<and>
   split (py ''aaaa bbbb cc'') = [py ''aaaa'', py ''bbbb'', py ''cc'']"
  by (simp add: chunking_defs)

text \<open>
  C2 at the input \<open>chunk_text("abcde fghij", 5)\<close>. In \<open>chunk_by_words\<close> a word of
  exactly \<open>max_length\<close> characters that meets an empty buffer passes the test
  \<open>len(current) + len(word) + 1 > max_length\<close>, is not longer than \<open>max_length\<close>, and
  is neither buffered nor emitted: both words are lost and no chunk is returned.
\<close>

theorem chunk_text_drops_words:
  "chunk_text (py ''abcde fghij'') 5 = Inr []"
  by (simp add: chunking_defs)

text \<open>
  C9 at the input \<open>chunk_text("   ", 5)\<close>. The text is not empty, so the guard
  \<open>if not text\<close> does not apply; after \<open>strip\<close> it is empty and is returned as the
  single chunk.
\<close>

theorem chunk_text_whitespace_only:
  "chunk_text (py ''   '') 5 = Inr [[]]"
  by (simp add: chunking_defs)

text \<open>
  Whitespace-only input is the only source of an empty chunk: for a positive
  \<open>max_length\<close> and a text that has a character other than whitespace, \<open>chunk_text\<close>
  returns without raising and none of its chunks is empty.
\<close>

lemma dropWhile_all_Nil: "\<forall>x\<in>set (dropWhile P xs). P x \<Longrightarrow> dropWhile P xs = []"
proof (rule ccontr)
  assume a: "\<forall>x\<in>set (dropWhile P xs). P x" and n: "dropWhile P xs \<noteq> []"
  from n have "\<not> P (hd (dropWhile P xs))" by (rule hd_dropWhile)
  moreover from n have "hd (dropWhile P xs) \<in> set (dropWhile P xs)" by simp
  ultimately show False using a by blast
qed

lemma strip_eq_Nil_iff: "strip s = [] \<longleftrightarrow> (\<forall>c\<in>set s. is_space c)"
proof
  assume "strip s = []"
  then have "dropWhile is_space (rev (dropWhile is_space s)) = []"
    by (simp add: strip_def)
  then have "\<forall>c\<in>set (rev (dropWhile is_space s)). is_space c"
    by (simp only: dropWhile_eq_Nil_conv)
  then have "\<forall>c\<in>set (dropWhile is_space s). is_space c"
    by (simp only: set_rev)
  then have "dropWhile is_space s = []" by (rule dropWhile_all_Nil)
  then show "\<forall>c\<in>set s. is_space c" by (simp only: dropWhile_eq_Nil_conv)
next
  assume "\<forall>c\<in>set s. is_space c"
  then show "strip s = []" by (auto simp: strip_def dest: set_dropWhileD)
qed

lemma strip_strip_nonempty: "strip s \<noteq> [] \<Longrightarrow> strip (strip s) \<noteq> []"
proof -
  assume n: "strip s \<noteq> []"
  let ?d = "dropWhile is_space (rev (dropWhile is_space s))"
  from n have d: "?d \<noteq> []" by (simp add: strip_def)
  then have "\<not> is_space (hd ?d)" by (rule hd_dropWhile)
  moreover from d have "hd ?d \<in> set (strip s)" by (simp add: strip_def)
  ultimately show ?thesis unfolding strip_eq_Nil_iff [of "strip s"] by blast
qed

lemma split_acc_solid:
  "\<forall>c\<in>set word. \<not> is_space c \<Longrightarrow> w \<in> set (split_acc word s) \<Longrightarrow> solid w"
proof (induction s arbitrary: word)
  case Nil
  then show ?case by (auto simp: solid_def split: if_splits)
next
  case (Cons c cs)
  show ?case
  proof (cases "is_space c")
    case True
    with Cons.prems have "w = word \<and> word \<noteq> [] \<or> w \<in> set (split_acc [] cs)"
      by (auto split: if_splits)
    then show ?thesis
    proof
      assume "w = word \<and> word \<noteq> []"
      with Cons.prems(1) show ?thesis by (simp add: solid_def)
    next
      assume "w \<in> set (split_acc [] cs)"
      then show ?thesis using Cons.IH [of "[]"] by simp
    qed
  next
    case False
    with Cons.prems have "w \<in> set (split_acc (word @ [c]) cs)" by simp
    moreover from False Cons.prems(1) have "\<forall>x\<in>set (word @ [c]). \<not> is_space x" by simp
    ultimately show ?thesis using Cons.IH [of "word @ [c]"] by blast
  qed
qed

lemma split_solid: "w \<in> set (split s) \<Longrightarrow> solid w"
  using split_acc_solid [of "[]" w s] by (simp add: split_def)

lemma solid_strip: "solid w \<Longrightarrow> strip (cur @ [32] @ w) \<noteq> []"
  by (cases w) (auto simp: solid_def strip_eq_Nil_iff)

lemma solid_strip_self: "solid w \<Longrightarrow> strip w \<noteq> []"
  by (cases w) (auto simp: solid_def strip_eq_Nil_iff)

lemma force_split_text_parts:
  assumes "0 < max_length"
  shows "\<exists>parts. force_split_text word max_length = Inr parts \<and> [] \<notin> set parts"
proof -
  let ?n = "nat max_length"
  have n: "0 < ?n" using assms(1) by simp
  have "slice word (k * ?n) (k * ?n + ?n) \<noteq> []" if "k < (length word + ?n - 1) div ?n" for k
  proof -
    from that n have "Suc k * ?n \<le> length word + ?n - 1"
      by (simp add: Suc_le_eq less_eq_div_iff_mult_less_eq [symmetric] del: mult_Suc)
    then have "k * ?n < length word" using n by simp
    then show ?thesis using n by (simp add: slice_def)
  qed
  then have "[] \<notin> set (map (\<lambda>k. slice word (k * ?n) (k * ?n + ?n)) [0..<(length word + ?n - 1) div ?n])"
    by (metis (no_types, lifting) atLeastLessThan_iff imageE list.set_map set_upt)
  then show ?thesis using assms by (simp add: force_split_text_def Let_def)
qed

lemma chunk_by_words_loop_nonempty:
  assumes "0 < max_length" and "\<forall>w\<in>set words. solid w" and "[] \<notin> set chunks"
    and "current = [] \<or> strip current \<noteq> []"
  shows "\<exists>cs. chunk_by_words_loop max_length words chunks current = Inr cs \<and> [] \<notin> set cs"
  using assms
proof (induction words arbitrary: chunks current)
  case Nil
  then show ?case by auto
next
  case (Cons word words)
  from Cons.prems have w: "solid word" and ws: "\<forall>w\<in>set words. solid w" by simp_all
  obtain parts where parts: "force_split_text word max_length = Inr parts" "[] \<notin> set parts"
    using force_split_text_parts [OF Cons.prems(1)] by blast
  show ?case
  proof (cases "int (length current) + int (length word) + 1 > max_length")
    case over: True
    show ?thesis
    proof (cases "current \<noteq> []")
      case True
      with Cons.prems(4) have "strip current \<noteq> []" by simp
      with Cons.prems(3) have "[] \<notin> set (chunks @ [strip current])" by simp
      moreover have "word = [] \<or> strip word \<noteq> []" using w by (simp add: solid_strip_self)
      ultimately show ?thesis
        using Cons.IH [OF Cons.prems(1) ws, of "chunks @ [strip current]" word] over True by simp
    next
      case False
      show ?thesis
      proof (cases "int (length word) > max_length")
        case True
        have "[] \<notin> set (chunks @ parts)" using parts(2) Cons.prems(3) by simp
        then show ?thesis
          using Cons.IH [OF Cons.prems(1) ws, of "chunks @ parts" current] Cons.prems(4)
            over False True parts(1) by simp
      next
        case nl: False
        show ?thesis
          using Cons.IH [OF Cons.prems(1) ws Cons.prems(3) Cons.prems(4)] over False nl by simp
      qed
    qed
  next
    case False
    have "strip (strip (current @ [32] @ word)) \<noteq> []"
      using solid_strip [OF w, of current] by (rule strip_strip_nonempty)
    then show ?thesis
      using Cons.IH [OF Cons.prems(1) ws Cons.prems(3), of "strip (current @ [32] @ word)"] False
      by simp
  qed
qed

lemma chunk_by_words_nonempty:
  assumes "0 < max_length"
  shows "\<exists>cs. chunk_by_words text max_length = Inr cs \<and> [] \<notin> set cs"
  unfolding chunk_by_words_def
  by (rule chunk_by_words_loop_nonempty [OF assms]) (simp_all add: split_solid)

lemma chunk_text_loop_nonempty:
  assumes "0 < max_length" and "[] \<notin> set chunks" and "current = [] \<or> strip current \<noteq> []"
  shows "\<exists>cs. chunk_text_loop max_length sentences chunks current = Inr cs \<and> [] \<notin> set cs"
  using assms
proof (induction sentences arbitrary: chunks current)
  case Nil
  then show ?case by auto
next
  case (Cons sentence sentences)
  note IH = Cons.IH [OF Cons.prems(1)]
  show ?case
  proof (cases "strip sentence = []")
    case True
    then show ?thesis using IH [OF Cons.prems(2,3)] by simp
  next
    case solid: False
    show ?thesis
    proof (cases "int (length current) + int (length sentence) + 1 > max_length")
      case over: True
      show ?thesis
      proof (cases "current \<noteq> []")
        case True
        with Cons.prems(3) have "strip current \<noteq> []" by simp
        with Cons.prems(2) have "[] \<notin> set (chunks @ [strip current])" by simp
        then show ?thesis
          using IH [of "chunks @ [strip current]" sentence] solid over True by simp
      next
        case False
        obtain parts where parts: "chunk_by_words sentence max_length = Inr parts" "[] \<notin> set parts"
          using chunk_by_words_nonempty [OF Cons.prems(1)] by blast
        have "[] \<notin> set (chunks @ parts)" using parts(2) Cons.prems(2) by simp
        then show ?thesis
          using IH [of "chunks @ parts" "[]"] solid over False parts(1) by simp
      qed
    next
      case False
      from solid have "strip (current @ [32] @ sentence) \<noteq> []"
        by (auto simp: strip_eq_Nil_iff)
      then have "strip (strip (current @ [32] @ sentence)) \<noteq> []"
        by (rule strip_strip_nonempty)
      then show ?thesis
        using IH [OF Cons.prems(2), of "strip (current @ [32] @ sentence)"] solid False by simp
    qed
  qed
qed

lemma chunk_text_nonempty_chunks:
  assumes "0 < max_length" and "strip text \<noteq> []"
  shows "\<exists>cs. chunk_text text max_length = Inr cs \<and> [] \<notin> set cs"
proof (cases "int (length (strip text)) \<le> max_length")
  case True
  with assms(2) show ?thesis by (auto simp: chunk_text_def)
next
  case False
  from assms(2) have "text \<noteq> []" by (auto simp: strip_def)
  with False show ?thesis
    using chunk_text_loop_nonempty [OF assms(1), of "[]" "[]" "split_sentences (strip text)"]
    by (simp add: chunk_text_def)
qed

section \<open>The combiner\<close>

text \<open>
  C10. For every single chunk \<open>b\<close> and every format string, supported or not,
  \<open>combine_audio_chunks([b], format)\<close> returns \<open>b\<close> itself: the one-element case
  returns before the format is looked at and before any decoding.
\<close>

theorem combine_audio_chunks_single: "combine_audio_chunks env [b] format = Inr b"
  by (simp add: combine_audio_chunks_def)

section \<open>Retries of one chunk\<close>

text \<open>
  C4. With \<open>max_retries = 3\<close> and a provider that answers the next three POSTs with
  status 500, \<open>_generate_chunk\<close> makes exactly three POSTs, sleeps a backoff after the
  first and after the second and not after the third, and raises an
  \<open>ElevenLabsException\<close> of kind \<open>UPSTREAM_ERROR\<close> whose message is taken from the
  third response.
\<close>

theorem generate_chunk_retry_exhaustion:
  assumes "max_retries sv = 3"
    and "req = \<lparr>url_voice_id = vid, body_text = chunk, body_model_id = model_id,
                 body_voice_settings = voice_settings, accept_format = fmt\<rparr>"
    and "upstream sv (posts trace) req = Response r1" and "status_code r1 = 500"
    and "upstream sv (posts trace + 1) req = Response r2" and "status_code r2 = 500"
    and "upstream sv (posts trace + 2) req = Response r3" and "status_code r3 = 500"
  shows "generate_chunk sv chunk vid model_id voice_settings fmt chunk_index trace =
           (Inl (ElevenLabsException
                   \<lparr>message = extract_error r3, error_code = UPSTREAM_ERROR, retryable = False\<rparr>),
            trace @ [Post req, Backoff 1 (retry_after r1), Post req, Backoff 2 (retry_after r2),
                     Post req])"
proof -
  have third: "generate_chunk_loop sv req chunk_index 3
                 (trace @ [Post req, Backoff 1 (retry_after r1), Post req, Backoff 2 (retry_after r2)]) =
               (Inl (ElevenLabsException
                   \<lparr>message = extract_error r3, error_code = UPSTREAM_ERROR, retryable = False\<rparr>),
                trace @ [Post req, Backoff 1 (retry_after r1), Post req, Backoff 2 (retry_after r2),
                     Post req])"
    using assms(1,7,8)
    by (subst generate_chunk_loop.simps) (simp add: posts_def new_ElevenLabsException_def)
  have second: "generate_chunk_loop sv req chunk_index 2 (trace @ [Post req, Backoff 1 (retry_after r1)]) =
                generate_chunk_loop sv req chunk_index 3
                 (trace @ [Post req, Backoff 1 (retry_after r1), Post req, Backoff 2 (retry_after r2)])"
    using assms(1,5,6)
    by (subst generate_chunk_loop.simps) (simp add: posts_def)
  have first: "generate_chunk_loop sv req chunk_index 1 trace =
               generate_chunk_loop sv req chunk_index 2 (trace @ [Post req, Backoff 1 (retry_after r1)])"
    using assms(1,3,4)
    by (subst generate_chunk_loop.simps) simp
  show ?thesis
    unfolding generate_chunk_def assms(2) [symmetric] first second third ..
qed

text \<open>The sample deployment against a provider that always answers 500.\<close>

theorem generate_chunk_retry_exhaustion_witness:
  "max_retries (sample_service answers_500) = 3 \<and>
   upstream (sample_service answers_500) 0 (sample_request (py ''hello'') (py ''mp3'')) = Response response_500 \<and>
   upstream (sample_service answers_500) 1 (sample_request (py ''hello'') (py ''mp3'')) = Response response_500 \<and>
   upstream (sample_service answers_500) 2 (sample_request (py ''hello'') (py ''mp3'')) = Response response_500 \<and>
   status_code response_500 = 500 \<and>
   generate_chunk (sample_service answers_500) (py ''hello'') (py ''pNInz6obpgDQGcFmaJgB'')
       (py ''eleven_flash_v2_5'') default_settings (py ''mp3'') 1 [] =
     (Inl (ElevenLabsException
             \<lparr>message = py ''Internal Server Error'', error_code = UPSTREAM_ERROR,
              retryable = False\<rparr>),
      [Post (sample_request (py ''hello'') (py ''mp3'')), Backoff 1 None,
       Post (sample_request (py ''hello'') (py ''mp3'')), Backoff 2 None,
       Post (sample_request (py ''hello'') (py ''mp3''))])"
  using generate_chunk_retry_exhaustion [where sv = "sample_service answers_500"
      and req = "sample_request (py ''hello'') (py ''mp3'')" and vid = "py ''pNInz6obpgDQGcFmaJgB''"
      and chunk = "py ''hello''" and model_id = "py ''eleven_flash_v2_5''"
      and voice_settings = default_settings and fmt = "py ''mp3''" and trace = "[]"
      and ?r1.0 = response_500 and ?r2.0 = response_500 and ?r3.0 = response_500
      and chunk_index = 1]
  by (simp add: sample_service_def answers_500_def sample_request_def extract_error_def
        truthy_def response_500_def posts_def py_def)

section \<open>The orchestrator: unknown voice\<close>

text \<open>
  C3, as the code has it. When \<open>voice_name\<close> is not in the registry,
  \<open>text_to_speech\<close> raises a \<open>ValidationException\<close>, whose kind is
  \<open>INVALID_INPUT\<close>, with the message \<open>Voice '...' is not available\<close>, and the trace
  is unchanged: no POST is sent and nothing sleeps.
\<close>

theorem text_to_speech_unknown_voice:
  assumes "registry sv voice_name = None"
  shows "text_to_speech sv txt voice_name chunk_size override_voice_settings output_format trace =
           (Inl (ValidationException
                   \<lparr>message = py ''Voice '' @ [39] @ voice_name @ [39] @ py '' is not available'',
                    error_code = INVALID_INPUT, retryable = False\<rparr>),
            trace)"
  using assms
  by (simp add: text_to_speech_def text_to_speech_try_def is_voice_available_def
        new_ValidationException_def)

text \<open>The sample deployment asked for a voice it does not have.\<close>

theorem text_to_speech_unknown_voice_witness:
  "registry (sample_service (answers_ok [1, 2, 3])) (py ''unknown_voice'') = None \<and>
   text_to_speech (sample_service (answers_ok [1, 2, 3])) (py ''hello'') (py ''unknown_voice'')
       None None None [] =
     (Inl (ValidationException
             \<lparr>message = py ''Voice 'unknown_voice' is not available'',
              error_code = INVALID_INPUT, retryable = False\<rparr>),
      [])"
  using text_to_speech_unknown_voice [of "sample_service (answers_ok [1, 2, 3])"
      "py ''unknown_voice''" "py ''hello''" None None None "[]"]
  by (simp add: sample_service_def sample_registry_def py_def)

text \<open>
  C3 as stated asks for the kind \<open>VOICE_NOT_FOUND\<close>; for the voice \<open>unknown_voice\<close>
  the kind raised is \<open>INVALID_INPUT\<close>.
\<close>

theorem text_to_speech_unknown_voice_kind:
  "map_sum kind_of id
     (fst (text_to_speech (sample_service (answers_ok [1, 2, 3])) (py ''hello'')
             (py ''unknown_voice'') None None None [])) = Inl (Some INVALID_INPUT) \<and>
   map_sum kind_of id
     (fst (text_to_speech (sample_service (answers_ok [1, 2, 3])) (py ''hello'')
             (py ''unknown_voice'') None None None [])) \<noteq> Inl (Some VOICE_NOT_FOUND)"
  by (simp add: service_defs py_def)

section \<open>The orchestrator: unexpected exceptions\<close>

text \<open>
  C7, as the code has it. An exception raised in the \<open>try\<close> block of
  \<open>text_to_speech\<close> that is neither a \<open>ValidationException\<close> nor an
  \<open>ElevenLabsException\<close> is replaced by an \<open>ElevenLabsException\<close> of kind
  \<open>UPSTREAM_ERROR\<close> whose message is \<open>Unexpected error: \<close> followed by the message of
  the original exception and whose \<open>retryable\<close> flag is false; the trace is the one at
  the raise.
\<close>

theorem text_to_speech_wraps_unexpected:
  assumes "text_to_speech_try sv txt voice_name (chunk_size_or_default sv chunk_size)
             override_voice_settings (output_format_or_default sv output_format) trace = (Inl e, trace')"
    and "\<forall>x. e \<noteq> ValidationException x" and "\<forall>x. e \<noteq> ElevenLabsException x"
  shows "text_to_speech sv txt voice_name chunk_size override_voice_settings output_format trace =
           (Inl (ElevenLabsException
                   \<lparr>message = py ''Unexpected error: '' @ str_exc e,
                    error_code = UPSTREAM_ERROR, retryable = False\<rparr>),
            trace')"
  using assms by (cases e) (simp_all add: text_to_speech_def new_ElevenLabsException_def)

text \<open>
  Two chunks and the output format \<open>flac\<close>: both chunks are synthesised, then the
  combiner raises \<open>ValueError\<close>.
\<close>

lemma try_flac:
  "text_to_speech_try (sample_service (answers_ok [1, 2, 3])) (py ''Aa. Bb.'') (py ''adam'') 4 None
       (py ''flac'') [] =
     (Inl (ValueError (py ''Unsupported audio format: flac. Must be one of {'mp3', 'wav', 'ogg'}'')),
      [Post (sample_request (py ''Aa.'') (py ''flac'')), ChunkDelay,
       Post (sample_request (py ''Bb.'') (py ''flac''))])"
  by (simp add: service_defs chunking_defs)

theorem text_to_speech_wraps_unexpected_witness:
  "text_to_speech (sample_service (answers_ok [1, 2, 3])) (py ''Aa. Bb.'') (py ''adam'') (Some 4) None
       (Some (py ''flac'')) [] =
     (Inl (ElevenLabsException
             \<lparr>message = py ''Unexpected error: Unsupported audio format: flac. Must be one of {'mp3', 'wav', 'ogg'}'',
              error_code = UPSTREAM_ERROR, retryable = False\<rparr>),
      [Post (sample_request (py ''Aa.'') (py ''flac'')), ChunkDelay,
       Post (sample_request (py ''Bb.'') (py ''flac''))])"
  using try_flac
    text_to_speech_wraps_unexpected [of "sample_service (answers_ok [1, 2, 3])" "py ''Aa. Bb.''"
      "py ''adam''" "Some 4" None "Some (py ''flac'')" "[]"
      "ValueError (py ''Unsupported audio format: flac. Must be one of {'mp3', 'wav', 'ogg'}'')"
      "[Post (sample_request (py ''Aa.'') (py ''flac'')), ChunkDelay,
        Post (sample_request (py ''Bb.'') (py ''flac''))]"]
  by (simp add: chunk_size_or_default_def output_format_or_default_def truthy_def py_def)

text \<open>
  C7 as stated asks for a \<open>retryable\<close> flag that is true; for the \<open>ValueError\<close> of
  the run above the flag of the exception raised in its place is false.
\<close>

theorem text_to_speech_unexpected_not_retryable:
  "fst (text_to_speech_try (sample_service (answers_ok [1, 2, 3])) (py ''Aa. Bb.'') (py ''adam'') 4 None
       (py ''flac'') []) =
     Inl (ValueError (py ''Unsupported audio format: flac. Must be one of {'mp3', 'wav', 'ogg'}'')) \<and>
   map_sum retryable_of id
     (fst (text_to_speech (sample_service (answers_ok [1, 2, 3])) (py ''Aa. Bb.'') (py ''adam'')
             (Some 4) None (Some (py ''flac'')) [])) = Inl (Some False) \<and>
   map_sum retryable_of id
     (fst (text_to_speech (sample_service (answers_ok [1, 2, 3])) (py ''Aa. Bb.'') (py ''adam'')
             (Some 4) None (Some (py ''flac'')) [])) \<noteq> Inl (Some True)"
  by (simp add: service_defs chunking_defs)

section \<open>The orchestrator: no audio\<close>

text \<open>
  A provider that answers every POST with status 200 and an empty body: each chunk costs
  one POST and gives the empty byte string as its result.
\<close>

lemma posts_Post: "posts (tr @ [Post r]) = Suc (posts tr)"
  by (simp add: posts_def)

lemma posts_ChunkDelay: "posts (tr @ [ChunkDelay]) = posts tr"
  by (simp add: posts_def)

lemma generate_chunk_answered_200:
  assumes "1 \<le> max_retries sv"
    and "upstream sv (posts trace)
           \<lparr>url_voice_id = vid, body_text = chunk, body_model_id = model_id,
            body_voice_settings = voice_settings, accept_format = fmt\<rparr> = Response x"
    and "status_code x = 200"
  shows "generate_chunk sv chunk vid model_id voice_settings fmt i trace =
           (Inr (Some (content x)),
            trace @ [Post \<lparr>url_voice_id = vid, body_text = chunk, body_model_id = model_id,
                           body_voice_settings = voice_settings, accept_format = fmt\<rparr>])"
  unfolding generate_chunk_def
  using assms by (subst generate_chunk_loop.simps) simp

lemma process_chunks_empty_answers:
  assumes "1 \<le> max_retries sv"
    and "\<forall>k r. \<exists>x. upstream sv k r = Response x \<and> status_code x = 200 \<and> content x = []"
  shows "fst (process_chunks sv vid model_id voice_settings fmt n i chunks audio_chunks trace) =
           Inr (audio_chunks @ replicate (length chunks) (Some [])) \<and>
         posts (snd (process_chunks sv vid model_id voice_settings fmt n i chunks audio_chunks trace)) =
           posts trace + length chunks"
proof (induction chunks arbitrary: i audio_chunks trace)
  case Nil
  show ?case by simp
next
  case (Cons chunk rest)
  let ?req = "\<lparr>url_voice_id = vid, body_text = chunk, body_model_id = model_id,
                body_voice_settings = voice_settings, accept_format = fmt\<rparr>"
  from assms(2) obtain x where x: "upstream sv (posts trace) ?req = Response x"
    "status_code x = 200" "content x = []" by blast
  have g: "generate_chunk sv chunk vid model_id voice_settings fmt i trace =
             (Inr (Some []), trace @ [Post ?req])"
    using generate_chunk_answered_200 [OF assms(1) x(1) x(2), of i] x(3) by simp
  show ?case
  proof (cases "i < n")
    case True
    then show ?thesis
      using Cons.IH [of "i + 1" "audio_chunks @ [Some []]" "trace @ [Post ?req] @ [ChunkDelay]"] g
      by (simp add: posts_def replicate_app_Cons_same)
  next
    case False
    then show ?thesis
      using Cons.IH [of "i + 1" "audio_chunks @ [Some []]" "trace @ [Post ?req]"] g
      by (simp add: posts_def replicate_app_Cons_same)
  qed
qed

lemma join_from_empty_results: "join_from i (replicate n (Some [])) = Inr []"
  by (induction n arbitrary: i) simp_all

lemma combine_empty_results:
  assumes "0 < n"
  shows "(\<exists>a. combine_audio_chunks env (replicate n (Some [])) format = Inr (Some a)) \<or>
         (\<exists>m. combine_audio_chunks env (replicate n (Some [])) format = Inl (ValueError m))"
proof (cases "n = 1")
  case True
  then show ?thesis by (simp add: combine_audio_chunks_def)
next
  case False
  with assms show ?thesis
    by (auto simp: combine_audio_chunks_def join_def join_from_empty_results
          split: option.splits)
qed

lemma combine_empty_results_one:
  "combine_audio_chunks env (replicate (Suc 0) (Some [])) format = Inr (Some [])"
  by (simp add: combine_audio_chunks_def)

lemma combine_empty_results_no_codec:
  assumes "0 < n" and "pydub env = None" and "lower format \<in> SUPPORTED_FORMATS"
  shows "combine_audio_chunks env (replicate n (Some [])) format = Inr (Some [])"
  using assms
  by (cases "n = 1")
     (simp_all add: combine_audio_chunks_def join_def join_from_empty_results)

lemma unexpected_is_not_no_audio:
  "py ''Unexpected error: '' @ m \<noteq> py ''No audio chunks were generated''"
  by (simp add: py_def)

text \<open>
  C8, as the code has it, for a known voice and a text within the limit. When the
  chunker returns no chunk, \<open>text_to_speech\<close> raises an \<open>ElevenLabsException\<close> of
  kind \<open>UPSTREAM_ERROR\<close> with the message \<open>No audio chunks were generated\<close>, and no
  POST is sent. When it returns at least one chunk, \<open>max_retries\<close> is at least 1 and
  every POST is answered with status 200 and an empty body, the empty results count as
  audio: one POST is made per chunk, no exception with the message
  \<open>No audio chunks were generated\<close> is raised, whatever audio the combiner makes of the
  empty results is returned, and the result is the empty audio when there is one chunk, or
  when there is no \<open>pydub\<close> and the format is supported.
\<close>

theorem text_to_speech_no_audio:
  assumes "registry sv voice_name = Some vc"
    and "int (length txt) \<le> max_text_length sv"
    and "chunk_text txt (chunk_size_or_default sv chunk_size) = Inr chunks"
  shows "(chunks = [] \<longrightarrow>
            text_to_speech sv txt voice_name chunk_size override_voice_settings output_format trace =
              (Inl (ElevenLabsException
                      \<lparr>message = py ''No audio chunks were generated'',
                       error_code = UPSTREAM_ERROR, retryable = False\<rparr>),
               trace)) \<and>
         (chunks \<noteq> [] \<and> 1 \<le> max_retries sv \<and>
          (\<forall>k r. \<exists>x. upstream sv k r = Response x \<and> status_code x = 200 \<and> content x = []) \<longrightarrow>
            posts (snd (text_to_speech sv txt voice_name chunk_size override_voice_settings
                          output_format trace)) = posts trace + length chunks \<and>
            (\<forall>e. fst (text_to_speech sv txt voice_name chunk_size override_voice_settings
                          output_format trace) = Inl e \<longrightarrow>
                 str_exc e \<noteq> py ''No audio chunks were generated'') \<and>
            (\<forall>a. combine_audio_chunks (audio sv) (replicate (length chunks) (Some []))
                    (output_format_or_default sv output_format) = Inr (Some a) \<longrightarrow>
                 fst (text_to_speech sv txt voice_name chunk_size override_voice_settings
                        output_format trace) = Inr a) \<and>
            (length chunks = 1 \<or>
             pydub (audio sv) = None \<and>
             lower (output_format_or_default sv output_format) \<in> SUPPORTED_FORMATS \<longrightarrow>
                 fst (text_to_speech sv txt voice_name chunk_size override_voice_settings
                        output_format trace) = Inr []))"
proof (intro conjI impI)
  assume "chunks = []"
  with assms show "text_to_speech sv txt voice_name chunk_size override_voice_settings output_format trace =
              (Inl (ElevenLabsException
                      \<lparr>message = py ''No audio chunks were generated'',
                       error_code = UPSTREAM_ERROR, retryable = False\<rparr>),
               trace)"
    by (simp add: text_to_speech_def text_to_speech_try_def is_voice_available_def
          get_voice_id_def get_voice_model_def get_voice_settings_def get_voice_config_def
          new_ElevenLabsException_def Let_def)
next
  assume h: "chunks \<noteq> [] \<and> 1 \<le> max_retries sv \<and>
          (\<forall>k r. \<exists>x. upstream sv k r = Response x \<and> status_code x = 200 \<and> content x = [])"
  let ?fmt = "output_format_or_default sv output_format"
  let ?vs = "dict_update (dict_update default_settings (case settings vc of None \<Rightarrow> [] | Some d \<Rightarrow> d))
               (case override_voice_settings of None \<Rightarrow> [] | Some d \<Rightarrow> d)"
  let ?P = "process_chunks sv (voice_id vc) (model vc) ?vs ?fmt (int (length chunks)) 1 chunks [] trace"
  let ?R = "text_to_speech sv txt voice_name chunk_size override_voice_settings output_format trace"
  let ?C = "combine_audio_chunks (audio sv) (replicate (length chunks) (Some [])) ?fmt"
  from h have n: "0 < length chunks" by simp
  obtain tr where P: "?P = (Inr (replicate (length chunks) (Some [])), tr)"
    and PP: "posts tr = posts trace + length chunks"
    using process_chunks_empty_answers [of sv "voice_id vc" "model vc" ?vs ?fmt "int (length chunks)" 1
        chunks "[]" trace] h
    by (cases ?P) simp
  have R: "?R = (case ?C of Inl e \<Rightarrow> (Inl (except_clauses e), tr)
                 | Inr None \<Rightarrow> (Inl (except_clauses (TypeError (py ''object of type 'NoneType' has no len()''))), tr)
                 | Inr (Some a) \<Rightarrow> (Inr a, tr))"
    using assms(1,2) n
    by (simp add: text_to_speech_def text_to_speech_try_def is_voice_available_def
          get_voice_id_def get_voice_model_def get_voice_settings_def get_voice_config_def
          Let_def assms(3) P split: sum.splits option.splits)
  from combine_empty_results [OF n, of "audio sv" ?fmt]
  consider a where "?C = Inr (Some a)" | m where "?C = Inl (ValueError m)" by blast
  then have RR: "posts (snd ?R) = posts trace + length chunks \<and>
      (\<forall>e. fst ?R = Inl e \<longrightarrow> str_exc e \<noteq> py ''No audio chunks were generated'') \<and>
      (\<forall>a. ?C = Inr (Some a) \<longrightarrow> fst ?R = Inr a)"
  proof cases
    case 1
    then show ?thesis using R PP by simp
  next
    case 2
    then show ?thesis using R PP
      by (simp add: new_ElevenLabsException_def unexpected_is_not_no_audio)
  qed
  from RR show "posts (snd ?R) = posts trace + length chunks" by blast
  from RR show "\<forall>e. fst ?R = Inl e \<longrightarrow> str_exc e \<noteq> py ''No audio chunks were generated''" by blast
  from RR show "\<forall>a. ?C = Inr (Some a) \<longrightarrow> fst ?R = Inr a" by blast
  assume "length chunks = 1 \<or> pydub (audio sv) = None \<and> lower ?fmt \<in> SUPPORTED_FORMATS"
  then have "?C = Inr (Some [])"
    using combine_empty_results_one [of "audio sv" ?fmt]
      combine_empty_results_no_codec [OF n, of "audio sv" ?fmt] by auto
  with RR show "fst ?R = Inr []" by blast
qed

text \<open>
  The sample deployment asked to read the empty text, and asked to read two chunks when
  the provider answers with empty audio.
\<close>

theorem text_to_speech_no_audio_witness:
  "chunk_text [] (chunk_size_or_default (sample_service (answers_ok [1, 2, 3])) None) = Inr [] \<and>
   text_to_speech (sample_service (answers_ok [1, 2, 3])) [] (py ''adam'') None None None [] =
     (Inl (ElevenLabsException
             \<lparr>message = py ''No audio chunks were generated'',
              error_code = UPSTREAM_ERROR, retryable = False\<rparr>),
      []) \<and>
   chunk_text (py ''Aa. Bb.'') (chunk_size_or_default (sample_service (answers_ok [])) (Some 4)) =
     Inr [py ''Aa.'', py ''Bb.''] \<and>
   fst (text_to_speech (sample_service (answers_ok [])) (py ''Aa. Bb.'') (py ''adam'') (Some 4) None
          None []) = Inr [] \<and>
   posts (snd (text_to_speech (sample_service (answers_ok [])) (py ''Aa. Bb.'') (py ''adam'') (Some 4)
                 None None [])) = 2"
  using text_to_speech_no_audio [where sv = "sample_service (answers_ok [1, 2, 3])"
      and voice_name = "py ''adam''"
      and vc = "\<lparr>voice_id = py ''pNInz6obpgDQGcFmaJgB'', model = py ''eleven_flash_v2_5'',
                 settings = None\<rparr>"
      and ?txt = "[]" and chunk_size = None and chunks = "[]" and override_voice_settings = None
      and output_format = None and trace = "[]"]
    text_to_speech_no_audio [where sv = "sample_service (answers_ok [])"
      and voice_name = "py ''adam''"
      and vc = "\<lparr>voice_id = py ''pNInz6obpgDQGcFmaJgB'', model = py ''eleven_flash_v2_5'',
                 settings = None\<rparr>"
      and ?txt = "py ''Aa. Bb.''" and chunk_size = "Some 4" and chunks = "[py ''Aa.'', py ''Bb.'']"
      and override_voice_settings = None and output_format = None and trace = "[]"]
  by (simp add: sample_service_def sample_registry_def answers_ok_def chunk_size_or_default_def
        output_format_or_default_def truthy_def SUPPORTED_FORMATS_def posts_def chunking_defs)

text \<open>
  C8 as stated also asks for a failure when the provider answers with empty audio; the
  test \<open>if audio_chunks\<close> is on the list, which then holds one empty result, and the
  empty audio is returned.
\<close>

theorem text_to_speech_empty_audio_returned:
  "text_to_speech (sample_service (answers_ok [])) (py ''hello'') (py ''adam'') None None None [] =
     (Inr [], [Post (sample_request (py ''hello'') (py ''mp3''))])"
  by (simp add: service_defs chunking_defs)

end
